theory Spec2Isabelle
  imports Main "HOL-Library.Multiset"
begin

section \<open>Data model\<close>

text \<open>
  The relational store: the tables \<open>User\<close>, \<open>Session\<close> and \<open>BookingMessage\<close>.
  Timestamps are milliseconds since the epoch, as \<open>Date.now()\<close> returns them.
  \<open>User.sm8Uuid\<close> is a nullable text column with a unique index; the columns of
  \<open>BookingMessage\<close> are all \<open>NOT NULL\<close>, its \<open>id\<close> is a serial and its \<open>userId\<close>
  references \<open>User.id\<close>.
\<close>

record user =
  u_id :: int
  u_name :: string
  u_email :: string
  u_phone :: string
  u_password :: string
  u_sm8Uuid :: "string option"

record session =
  s_userId :: int
  s_token :: string
  s_expiresAt :: int

record booking_message =
  m_id :: int
  bookingUuid :: string
  bookingDescription :: string
  bookingStatus :: string
  m_userId :: int
  message :: string
  createdAt :: int

record db =
  users :: "user list"
  sessions :: "session list"
  messages :: "booking_message list"
  message_seq :: int

subsection \<open>Values received from the external API\<close>

text \<open>
  The bodies of the external API are untyped (\<open>any\<close>) in the source, so they are
  modelled as parsed JSON values. Numbers are integers here; an object is the list of
  its own properties. \<open>None\<close> of type \<open>json option\<close> stands for \<open>undefined\<close>.
\<close>

datatype json =
  JNull
  | JBool bool
  | JNum int
  | JStr string
  | JArr "json list"
  | JObj "(string \<times> json) list"

datatype exn = TypeError | SyntaxError | FetchFailed | PrismaError

text \<open>
  The outcome of \<open>await fetch(url, ...)\<close>: the promise rejects, or resolves to a
  response with a status and a body; \<open>response.json()\<close> rejects when the body is
  not JSON (\<open>None\<close>).
\<close>

datatype fetch_result = Rejected | Response nat "json option"

definition ok :: "nat \<Rightarrow> bool" where
  "ok st = (200 \<le> st \<and> st \<le> 299)"

definition response_json :: "json option \<Rightarrow> exn + json" where
  "response_json b = (case b of None \<Rightarrow> Inl SyntaxError | Some j \<Rightarrow> Inr j)"

text \<open>JavaScript truthiness of a value (\<open>!v\<close> is its negation).\<close>

fun truthy :: "json option \<Rightarrow> bool" where
  "truthy None = False"
| "truthy (Some JNull) = False"
| "truthy (Some (JBool b)) = b"
| "truthy (Some (JNum n)) = (n \<noteq> 0)"
| "truthy (Some (JStr s)) = (s \<noteq> [])"
| "truthy (Some (JArr xs)) = True"
| "truthy (Some (JObj fs)) = True"

definition truthy_str :: "string option \<Rightarrow> bool" where
  "truthy_str t = (case t of None \<Rightarrow> False | Some s \<Rightarrow> s \<noteq> [])"

text \<open>
  Property reads. \<open>js_prop v p\<close> is \<open>v.p\<close> for the property names the routes read
  (\<open>company_uuid\<close>, \<open>job_description\<close>, \<open>status\<close>, \<open>uuid\<close>): reading from
  \<open>undefined\<close> or \<open>null\<close> throws, an object yields its own property, and strings,
  numbers, booleans and arrays have no such property. \<open>js_first v\<close> is \<open>v[0]\<close>.
\<close>

fun js_prop :: "json option \<Rightarrow> string \<Rightarrow> exn + json option" where
  "js_prop None p = Inl TypeError"
| "js_prop (Some JNull) p = Inl TypeError"
| "js_prop (Some (JObj fs)) p = Inr (map_of fs p)"
| "js_prop (Some v) p = Inr None"

fun js_first :: "json \<Rightarrow> exn + json option" where
  "js_first JNull = Inl TypeError"
| "js_first (JArr xs) = Inr (case xs of [] \<Rightarrow> None | x # _ \<Rightarrow> Some x)"
| "js_first (JStr s) = Inr (case s of [] \<Rightarrow> None | c # _ \<Rightarrow> Some (JStr [c]))"
| "js_first (JObj fs) = Inr (map_of fs ''0'')"
| "js_first v = Inr None"

subsection \<open>Environment, requests and responses\<close>

text \<open>
  The configuration constants, the clock, the external API (a response for every
  URL; the request headers are constant) and the two libraries the routes call.
  \<open>bcrypt.compare\<close> and \<open>jwt.sign\<close> may throw (\<open>None\<close>); \<open>jwt_verify\<close> tells
  whether \<open>jwt.verify\<close> returns rather than throws on a string. \<open>fetch_attachments_untyped\<close>
  is the outcome of the attachment request for a job whose \<open>uuid\<close> is not a string:
  its URL then holds JavaScript's string conversion of that value, which is left
  abstract. \<open>string_filter\<close> is Prisma's reading of a non-empty filter object given
  for a text column: the values it selects, or \<open>None\<close> when it rejects the object.
\<close>

record env =
  COOKIE_NAME :: string
  JWT_SECRET :: string
  NODE_ENV :: string
  now :: int
  fetch :: "string \<Rightarrow> fetch_result"
  fetch_attachments_untyped :: "json option \<Rightarrow> fetch_result"
  string_filter :: "(string \<times> json) list \<Rightarrow> (string \<Rightarrow> bool) option"
  bcrypt_compare :: "string \<Rightarrow> string \<Rightarrow> bool option"
  jwt_sign :: "string \<Rightarrow> string \<Rightarrow> string \<Rightarrow> string option"
  jwt_verify :: "string \<Rightarrow> string \<Rightarrow> bool"

text \<open>
  \<open>cookies\<close> is \<open>req.cookies\<close> as \<open>cookieParser()\<close> leaves it: a cookie is a string
  (\<open>JStr\<close>), except that a value \<open>j:\<close> followed by JSON that parses to a truthy
  value has been replaced by that value.
\<close>

record request =
  authorization :: "string option"
  cookies :: "string \<Rightarrow> json option"
  params_uuid :: string
  body_identifier :: string
  body_password :: string
  body_message :: "string option"

record cookie_options =
  httpOnly :: bool
  secure :: bool
  sameSite :: string
  maxAge :: "int option"

datatype cookie_action =
  NoCookie
  | SetCookie string string cookie_options
  | ClearCookie string cookie_options

record public_user =
  p_id :: int
  p_name :: string
  p_email :: string
  p_phone :: string

record author =
  a_id :: int
  a_name :: string
  a_email :: string

record message_with_user =
  msg :: booking_message
  msg_user :: "author option"

record booking_ref =
  ref_bookingUuid :: string
  ref_bookingDescription :: string

text \<open>The object \<open>{ ...job, attachments }\<close>, kept as its two parts.\<close>

record job_with_attachments =
  job :: json
  attachments :: json

datatype body =
  ErrorBody string
  | MessageBody string
  | SessionBody string public_user
  | SavedMessage booking_message
  | MessageList "message_with_user list"
  | Grouped "(string \<times> booking_ref list) list"
  | JobsBody "job_with_attachments list"

record response =
  status :: nat
  body :: body
  cookie :: cookie_action

definition reply :: "nat \<Rightarrow> body \<Rightarrow> response" where
  "reply st b = \<lparr>status = st, body = b, cookie = NoCookie\<rparr>"

definition internal_error :: response where
  "internal_error = reply 500 (ErrorBody ''Internal server error'')"

section \<open>Store operations\<close>

text \<open>\<open>prisma.user.findFirst\<close> with \<open>OR: [{ email }, { phone }]\<close>.\<close>

definition user_findFirst :: "string \<Rightarrow> db \<Rightarrow> user option" where
  "user_findFirst ident d = find (\<lambda>u. u_email u = ident \<or> u_phone u = ident) (users d)"

definition user_by_id :: "int \<Rightarrow> db \<Rightarrow> user option" where
  "user_by_id i d = find (\<lambda>u. u_id u = i) (users d)"

text \<open>
  \<open>prisma.user.update\<close> of \<open>sm8Uuid\<close>: the value must be a string, and the unique
  index on \<open>sm8Uuid\<close> rejects a value another user already holds.
\<close>

definition user_update_sm8Uuid :: "int \<Rightarrow> json option \<Rightarrow> db \<Rightarrow> exn + db" where
  "user_update_sm8Uuid i v d =
     (case v of
        Some (JStr s) \<Rightarrow>
          if list_ex (\<lambda>u. u_id u \<noteq> i \<and> u_sm8Uuid u = Some s) (users d) then Inl PrismaError
          else Inr (d\<lparr>users := map (\<lambda>u. if u_id u = i then u\<lparr>u_sm8Uuid := Some s\<rparr> else u) (users d)\<rparr>)
      | _ \<Rightarrow> Inl PrismaError)"

text \<open>
  \<open>prisma.session.create\<close>: the token is a unique key of the table (the middleware
  reads it with \<open>findUnique\<close>).
\<close>

definition session_create :: "session \<Rightarrow> db \<Rightarrow> exn + db" where
  "session_create s d =
     (if list_ex (\<lambda>r. s_token r = s_token s) (sessions d) then Inl PrismaError
      else Inr (d\<lparr>sessions := sessions d @ [s]\<rparr>))"

definition session_find :: "string \<Rightarrow> db \<Rightarrow> session option" where
  "session_find t d = find (\<lambda>r. s_token r = t) (sessions d)"

text \<open>
  \<open>where: { token }\<close> of \<open>deleteMany\<close> for any value of \<open>token\<close>: a string selects
  the rows with that token, the filter object \<open>{}\<close> has no condition and selects every
  row, and a number, a boolean or an array is rejected.
\<close>

fun token_filter :: "env \<Rightarrow> json \<Rightarrow> (string \<Rightarrow> bool) option" where
  "token_filter e (JStr s) = Some (\<lambda>t. t = s)"
| "token_filter e (JObj []) = Some (\<lambda>t. True)"
| "token_filter e (JObj (f # fs)) = string_filter e (f # fs)"
| "token_filter e v = None"

definition session_deleteMany :: "env \<Rightarrow> json \<Rightarrow> db \<Rightarrow> exn + db" where
  "session_deleteMany e v d =
     (case token_filter e v of
        None \<Rightarrow> Inl PrismaError
      | Some selected \<Rightarrow> Inr (d\<lparr>sessions := filter (\<lambda>r. \<not> selected (s_token r)) (sessions d)\<rparr>))"

section \<open>Authentication routes\<close>

definition api :: string where
  "api = ''https://api.servicem8.com/api_1.0/''"

definition contact_url :: "string \<Rightarrow> string" where
  "contact_url email = api @ ''companycontact.json?$filter=email eq '' @ email"

text \<open>\<open>client[0].company_uuid\<close>\<close>

definition first_company_uuid :: "json \<Rightarrow> exn + json option" where
  "first_company_uuid client =
     (case js_first client of
        Inl e \<Rightarrow> Inl e
      | Inr c \<Rightarrow> js_prop c ''company_uuid'')"

definition str_of :: "json option \<Rightarrow> string" where
  "str_of v = (case v of Some (JStr s) \<Rightarrow> s | _ \<Rightarrow> [])"

definition invalid_credentials :: response where
  "invalid_credentials = reply 404 (ErrorBody ''Invalid email or phone and password'')"

definition login_cookie :: "env \<Rightarrow> string \<Rightarrow> cookie_action" where
  "login_cookie e token =
     SetCookie (COOKIE_NAME e) token
       \<lparr>httpOnly = True, secure = (NODE_ENV e = ''production''), sameSite = ''lax'',
        maxAge = Some (7 * 24 * 60 * 60 * 1000)\<rparr>"

text \<open>
  \<open>POST /login\<close>. Every exception inside the handler ends in its \<open>catch\<close>, which
  answers 500; what was written to the store before the exception stays written.
\<close>

definition login :: "env \<Rightarrow> db \<Rightarrow> request \<Rightarrow> db \<times> response" where
  "login e d req =
     (case user_findFirst (body_identifier req) d of
        None \<Rightarrow> (d, invalid_credentials)
      | Some user \<Rightarrow>
         (case bcrypt_compare e (body_password req) (u_password user) of
            None \<Rightarrow> (d, internal_error)
          | Some isPasswordValid \<Rightarrow>
             if \<not> isPasswordValid then (d, invalid_credentials)
             else
              (case fetch e (contact_url (u_email user)) of
                 Rejected \<Rightarrow> (d, internal_error)
               | Response st b \<Rightarrow>
                  if \<not> ok st then (d, reply 500 (ErrorBody ''Failed to verify user with ServiceM8''))
                  else
                   (case response_json b of
                      Inl ex \<Rightarrow> (d, internal_error)
                    | Inr client \<Rightarrow>
                       (case first_company_uuid client of
                          Inl ex \<Rightarrow> (d, internal_error)
                        | Inr clientUuid \<Rightarrow>
                           if \<not> truthy clientUuid
                           then (d, reply 404 (ErrorBody ''User not found in ServiceM8''))
                           else
                            (case user_update_sm8Uuid (u_id user) clientUuid d of
                               Inl ex \<Rightarrow> (d, internal_error)
                             | Inr d1 \<Rightarrow>
                                (case jwt_sign e (str_of clientUuid) (JWT_SECRET e) ''1h'' of
                                   None \<Rightarrow> (d1, internal_error)
                                 | Some token \<Rightarrow>
                                    (case session_create
                                            \<lparr>s_userId = u_id user, s_token = token,
                                             s_expiresAt = now e + 60 * 60 * 1000\<rparr> d1 of
                                       Inl ex \<Rightarrow> (d1, internal_error)
                                     | Inr d2 \<Rightarrow>
                                        (d2, \<lparr>status = 200,
                                              body = MessageBody ''Logged in successful'',
                                              cookie = login_cookie e token\<rparr>)))))))))"

text \<open>
  \<open>POST /logout\<close>. A cookie whose value is the empty string is falsy, so it counts
  as no cookie; any other cookie value is handed to \<open>deleteMany\<close> as it is.
\<close>

definition clear_options :: "env \<Rightarrow> cookie_options" where
  "clear_options e =
     \<lparr>httpOnly = True, secure = (NODE_ENV e = ''production''), sameSite = ''lax'', maxAge = None\<rparr>"

definition logout :: "env \<Rightarrow> db \<Rightarrow> request \<Rightarrow> db \<times> response" where
  "logout e d req =
     (case cookies req (COOKIE_NAME e) of
        None \<Rightarrow> (d, reply 400 (ErrorBody ''No active session found''))
      | Some token \<Rightarrow>
         if truthy (Some token)
         then (case session_deleteMany e token d of
                 Inl ex \<Rightarrow> (d, internal_error)
               | Inr d' \<Rightarrow>
                  (d', \<lparr>status = 200, body = MessageBody ''Logged out successfully'',
                        cookie = ClearCookie (COOKIE_NAME e) (clear_options e)\<rparr>))
         else (d, reply 400 (ErrorBody ''No active session found'')))"

text \<open>\<open>authHeader.split(" ")\<close>\<close>

fun split_on :: "char \<Rightarrow> string \<Rightarrow> string list" where
  "split_on c [] = [[]]"
| "split_on c (x # xs) =
     (if x = c then [] # split_on c xs
      else (case split_on c xs of
              [] \<Rightarrow> [[x]]
            | w # ws \<Rightarrow> (x # w) # ws))"

text \<open>
  \<open>extractToken\<close>: the second word of a header whose first word is \<open>Bearer\<close>;
  \<open>None\<close> stands for both \<open>null\<close> and \<open>undefined\<close>.
\<close>

definition extractToken :: "request \<Rightarrow> string option" where
  "extractToken req =
     (case authorization req of
        None \<Rightarrow> None
      | Some authHeader \<Rightarrow>
         if authHeader = [] then None
         else (case split_on CHR '' '' authHeader of
                 [] \<Rightarrow> None
               | scheme # rest \<Rightarrow>
                  if scheme = ''Bearer''
                  then (case rest of [] \<Rightarrow> None | token # _ \<Rightarrow> Some token)
                  else None))"

text \<open>\<open>a || b\<close>\<close>

definition js_or :: "json option \<Rightarrow> json option \<Rightarrow> json option" where
  "js_or a b = (if truthy a then a else b)"

definition session_token :: "env \<Rightarrow> request \<Rightarrow> json option" where
  "session_token e req = js_or (map_option JStr (extractToken req)) (cookies req (COOKIE_NAME e))"

definition public_profile :: "user \<Rightarrow> public_user" where
  "public_profile u = \<lparr>p_id = u_id u, p_name = u_name u, p_email = u_email u, p_phone = u_phone u\<rparr>"

text \<open>
  \<open>GET /check-session\<close>. \<open>jwt.verify\<close> throws on a token that is not a string. The
  session is read with its user (\<open>include: { user: true }\<close>); reading the fields of a
  user that is not there throws.
\<close>

definition check_session :: "env \<Rightarrow> db \<Rightarrow> request \<Rightarrow> response" where
  "check_session e d req =
     (if \<not> truthy (session_token e req) then reply 401 (ErrorBody ''Unauthorized'')
      else
       (case session_token e req of
          Some (JStr token) \<Rightarrow>
            if \<not> jwt_verify e token (JWT_SECRET e) then reply 401 (ErrorBody ''Invalid token'')
            else
             (case session_find token d of
                None \<Rightarrow> reply 401 (ErrorBody ''Session not found'')
              | Some s \<Rightarrow>
                 (case user_by_id (s_userId s) d of
                    None \<Rightarrow> internal_error
                  | Some u \<Rightarrow> reply 200 (SessionBody ''Session valid'' (public_profile u))))
        | _ \<Rightarrow> reply 401 (ErrorBody ''Invalid token'')))"

section \<open>Auth middleware\<close>

datatype auth_result = Denied response | Next user

text \<open>
  \<open>authMiddleware\<close> reads the cookie only and looks the session up by its token;
  \<open>findUnique\<close> rejects a token that is not a string, which ends in the \<open>catch\<close>. The
  warning for a user without \<open>sm8Uuid\<close> has no effect on the request.
\<close>

definition authMiddleware :: "env \<Rightarrow> db \<Rightarrow> request \<Rightarrow> auth_result" where
  "authMiddleware e d req =
     (if \<not> truthy (cookies req (COOKIE_NAME e))
      then Denied (reply 401 (ErrorBody ''Unauthorized: No token provided''))
      else
       (case cookies req (COOKIE_NAME e) of
          Some (JStr token) \<Rightarrow>
            (case session_find token d of
               None \<Rightarrow> Denied (reply 401 (ErrorBody ''Unauthorized: Invalid session''))
             | Some s \<Rightarrow>
                (case user_by_id (s_userId s) d of
                   None \<Rightarrow> Denied (reply 401 (ErrorBody ''Unauthorized: Invalid session''))
                 | Some u \<Rightarrow> Next u))
        | _ \<Rightarrow> Denied internal_error))"

text \<open>
  A protected route: \<open>app.use(path, authMiddleware, router)\<close>. The handler receives
  \<open>req.user\<close>.
\<close>

definition protected ::
  "env \<Rightarrow> db \<Rightarrow> request \<Rightarrow> (user option \<Rightarrow> db \<times> response) \<Rightarrow> db \<times> response" where
  "protected e d req handler =
     (case authMiddleware e d req of
        Denied r \<Rightarrow> (d, r)
      | Next u \<Rightarrow> handler (Some u))"

section \<open>Message routes\<close>

definition job_url :: "string \<Rightarrow> string" where
  "job_url jobUuid = api @ ''job/'' @ jobUuid @ ''.json''"

text \<open>\<open>fetchJobDetails\<close> does not look at \<open>response.ok\<close>.\<close>

definition fetchJobDetails :: "env \<Rightarrow> string \<Rightarrow> exn + json" where
  "fetchJobDetails e jobUuid =
     (case fetch e (job_url jobUuid) of
        Rejected \<Rightarrow> Inl FetchFailed
      | Response st b \<Rightarrow> response_json b)"

text \<open>
  \<open>prisma.bookingMessage.create\<close>: the text columns are required strings, the
  author must be a row of \<open>User\<close>, and \<open>id\<close> and \<open>createdAt\<close> take their defaults.
\<close>

definition bookingMessage_create ::
  "int \<Rightarrow> string \<Rightarrow> json option \<Rightarrow> json option \<Rightarrow> int \<Rightarrow> string \<Rightarrow> db
     \<Rightarrow> exn + (db \<times> booking_message)" where
  "bookingMessage_create t bUuid description st uid text d =
     (case (description, st) of
        (Some (JStr ds), Some (JStr ss)) \<Rightarrow>
          if user_by_id uid d = None then Inl PrismaError
          else
            (let saved = \<lparr>m_id = message_seq d, bookingUuid = bUuid, bookingDescription = ds,
                          bookingStatus = ss, m_userId = uid, message = text, createdAt = t\<rparr>
             in Inr (d\<lparr>messages := messages d @ [saved], message_seq := message_seq d + 1\<rparr>, saved))
      | _ \<Rightarrow> Inl PrismaError)"

text \<open>\<open>POST /:uuid/send-message\<close>\<close>

definition send_message :: "env \<Rightarrow> db \<Rightarrow> request \<Rightarrow> user option \<Rightarrow> db \<times> response" where
  "send_message e d req req_user =
     (case req_user of
        None \<Rightarrow> (d, reply 401 (ErrorBody ''Unauthorized''))
      | Some u \<Rightarrow>
         if \<not> truthy_str (body_message req) then (d, reply 400 (ErrorBody ''Message is required''))
         else
          (case fetchJobDetails e (params_uuid req) of
             Inl ex \<Rightarrow> (d, internal_error)
           | Inr jobDetails \<Rightarrow>
              (case js_prop (Some jobDetails) ''job_description'' of
                 Inl ex \<Rightarrow> (d, internal_error)
               | Inr description \<Rightarrow>
                  (case js_prop (Some jobDetails) ''status'' of
                     Inl ex \<Rightarrow> (d, internal_error)
                   | Inr st \<Rightarrow>
                      (case bookingMessage_create (now e) (params_uuid req) description st
                              (u_id u) (case body_message req of None \<Rightarrow> [] | Some m \<Rightarrow> m) d of
                         Inl ex \<Rightarrow> (d, internal_error)
                       | Inr (d', saved) \<Rightarrow> (d', reply 200 (SavedMessage saved)))))))"

definition author_of :: "user \<Rightarrow> author" where
  "author_of u = \<lparr>a_id = u_id u, a_name = u_name u, a_email = u_email u\<rparr>"

text \<open>
  \<open>GET /:uuid/get-messages\<close>: \<open>findMany\<close> with \<open>orderBy: { createdAt: "asc" }\<close> and
  the author's \<open>id\<close>, \<open>name\<close> and \<open>email\<close> selected.
\<close>

definition get_messages :: "db \<Rightarrow> request \<Rightarrow> response" where
  "get_messages d req =
     reply 200 (MessageList
       (map (\<lambda>m. \<lparr>msg = m, msg_user = map_option author_of (user_by_id (m_userId m) d)\<rparr>)
          (sort_key createdAt (filter (\<lambda>m. bookingUuid m = params_uuid req) (messages d)))))"

text \<open>
  The object \<open>grouped\<close> of the grouped listing starts as \<open>{}\<close>. It is kept as the
  list of its own properties in the order of their creation. A read \<open>grouped[k]\<close>
  also finds what \<open>Object.prototype\<close> gives every object under the names below, all of
  them truthy; the value of an own property is a non-empty array, truthy as well.
\<close>

definition object_prototype_names :: "string list" where
  "object_prototype_names =
     [''constructor'', ''__defineGetter__'', ''__defineSetter__'', ''hasOwnProperty'',
      ''__lookupGetter__'', ''__lookupSetter__'', ''isPrototypeOf'', ''propertyIsEnumerable'',
      ''toString'', ''valueOf'', ''__proto__'', ''toLocaleString'']"

definition grouped_truthy :: "(string \<times> 'a) list \<Rightarrow> string \<Rightarrow> bool" where
  "grouped_truthy grouped k = (map_of grouped k \<noteq> None \<or> k \<in> set object_prototype_names)"

text \<open>
  The keys of an object are enumerated, and so written by \<open>res.json\<close>, array indices
  first in ascending numeric order, then the other keys in the order of their
  creation. An array index is the decimal numeral, without a leading zero, of a
  number below \<open>2^32 - 1\<close>.
\<close>

definition digit_value :: "char \<Rightarrow> nat option" where
  "digit_value c =
     map_of [(CHR ''0'', 0), (CHR ''1'', 1), (CHR ''2'', 2), (CHR ''3'', 3), (CHR ''4'', 4),
             (CHR ''5'', 5), (CHR ''6'', 6), (CHR ''7'', 7), (CHR ''8'', 8), (CHR ''9'', 9)] c"

fun decimal :: "nat \<Rightarrow> string \<Rightarrow> nat option" where
  "decimal acc [] = Some acc"
| "decimal acc (c # cs) =
     (case digit_value c of
        None \<Rightarrow> None
      | Some v \<Rightarrow> decimal (10 * acc + v) cs)"

definition array_index :: "string \<Rightarrow> nat option" where
  "array_index k =
     (case k of
        [] \<Rightarrow> None
      | c # cs \<Rightarrow>
         if c = CHR ''0'' \<and> cs \<noteq> [] then None
         else (case decimal 0 k of
                 None \<Rightarrow> None
               | Some n \<Rightarrow> if n < 4294967295 then Some n else None))"

definition index_or_0 :: "string \<Rightarrow> nat" where
  "index_or_0 k = (case array_index k of None \<Rightarrow> 0 | Some n \<Rightarrow> n)"

definition own_entries :: "(string \<times> 'a) list \<Rightarrow> (string \<times> 'a) list" where
  "own_entries obj =
     sort_key (\<lambda>kv. index_or_0 (fst kv)) (filter (\<lambda>kv. array_index (fst kv) \<noteq> None) obj)
     @ filter (\<lambda>kv. array_index (fst kv) = None) obj"

text \<open>
  \<open>GET /\<close> of the messages router. \<open>where: { userId: req.user?.id }\<close> with no user
  is a filter on \<open>undefined\<close>, which selects every row.
\<close>

definition group_step ::
  "(string \<times> booking_ref list) list \<Rightarrow> booking_message \<Rightarrow> (string \<times> booking_ref list) list" where
  "group_step grouped m =
     (if \<not> grouped_truthy grouped (bookingUuid m)
      then grouped @ [(bookingUuid m,
             [\<lparr>ref_bookingUuid = bookingUuid m, ref_bookingDescription = bookingDescription m\<rparr>])]
      else grouped)"

definition messages_of :: "db \<Rightarrow> user option \<Rightarrow> booking_message list" where
  "messages_of d req_user =
     (case req_user of
        None \<Rightarrow> messages d
      | Some u \<Rightarrow> filter (\<lambda>m. m_userId m = u_id u) (messages d))"

definition list_bookings :: "db \<Rightarrow> user option \<Rightarrow> response" where
  "list_bookings d req_user =
     reply 200 (Grouped (own_entries
       (foldl group_step [] (rev (sort_key createdAt (messages_of d req_user))))))"

section \<open>Job listing\<close>

definition attachments_url :: "string \<Rightarrow> string" where
  "attachments_url jobUuid = api @ ''attachment.json?$filter=related_object_uuid eq '' @ jobUuid"

definition jobs_url :: "string \<Rightarrow> string" where
  "jobs_url sm8Uuid = api @ ''job.json?$filter=company_uuid eq '' @ sm8Uuid"

definition fetch_attachments :: "env \<Rightarrow> json option \<Rightarrow> fetch_result" where
  "fetch_attachments e jobUuid =
     (case jobUuid of
        Some (JStr s) \<Rightarrow> fetch e (attachments_url s)
      | _ \<Rightarrow> fetch_attachments_untyped e jobUuid)"

text \<open>\<open>fetchBookingAttachments\<close>: a response that is not ok yields \<open>[]\<close>.\<close>

definition fetchBookingAttachments :: "env \<Rightarrow> json option \<Rightarrow> exn + json" where
  "fetchBookingAttachments e jobUuid =
     (case fetch_attachments e jobUuid of
        Rejected \<Rightarrow> Inl FetchFailed
      | Response st b \<Rightarrow> if \<not> ok st then Inr (JArr []) else response_json b)"

definition with_attachments :: "env \<Rightarrow> json \<Rightarrow> exn + job_with_attachments" where
  "with_attachments e j =
     (case js_prop (Some j) ''uuid'' of
        Inl ex \<Rightarrow> Inl ex
      | Inr jobUuid \<Rightarrow>
         (case fetchBookingAttachments e jobUuid of
            Inl ex \<Rightarrow> Inl ex
          | Inr a \<Rightarrow> Inr \<lparr>job = j, attachments = a\<rparr>))"

text \<open>\<open>Promise.all\<close>: rejected as soon as one promise is, else the values in order.\<close>

fun promise_all :: "(exn + 'a) list \<Rightarrow> exn + 'a list" where
  "promise_all [] = Inr []"
| "promise_all (r # rs) =
     (case r of
        Inl ex \<Rightarrow> Inl ex
      | Inr x \<Rightarrow> (case promise_all rs of Inl ex \<Rightarrow> Inl ex | Inr xs \<Rightarrow> Inr (x # xs)))"

text \<open>\<open>GET /\<close> of the bookings router; \<open>jobs.map\<close> throws unless \<open>jobs\<close> is an array.\<close>

definition list_jobs :: "env \<Rightarrow> user option \<Rightarrow> response" where
  "list_jobs e req_user =
     (case req_user of
        None \<Rightarrow> reply 401 (ErrorBody ''Unauthorized'')
      | Some u \<Rightarrow>
         if \<not> truthy_str (u_sm8Uuid u) then reply 400 (ErrorBody ''ServiceM8 UUID not found for user'')
         else
          (case fetch e (jobs_url (case u_sm8Uuid u of None \<Rightarrow> [] | Some c \<Rightarrow> c)) of
             Rejected \<Rightarrow> internal_error
           | Response st b \<Rightarrow>
              if \<not> ok st then reply 500 (ErrorBody ''Failed to fetch jobs from ServiceM8'')
              else
               (case response_json b of
                  Inl ex \<Rightarrow> internal_error
                | Inr jobs \<Rightarrow>
                   (case jobs of
                      JArr js \<Rightarrow>
                        (case promise_all (map (with_attachments e) js) of
                           Inl ex \<Rightarrow> internal_error
                         | Inr jobsWithAttachments \<Rightarrow> reply 200 (JobsBody jobsWithAttachments))
                    | _ \<Rightarrow> internal_error))))"

section \<open>Notions used to state the properties\<close>

text \<open>The time of the most recent message on booking \<open>k\<close> among \<open>ms\<close>.\<close>

definition latest_activity :: "booking_message list \<Rightarrow> string \<Rightarrow> int" where
  "latest_activity ms k = Max (set (map createdAt (filter (\<lambda>m. bookingUuid m = k) ms)))"

text \<open>
  A key for which an object behaves as a plain dictionary: not an array index and not a
  name of \<open>Object.prototype\<close>. The UUIDs of the external API, which hold hyphens, are
  such keys.
\<close>

definition plain_key :: "string \<Rightarrow> bool" where
  "plain_key k = (array_index k = None \<and> k \<notin> set object_prototype_names)"

text \<open>The entry \<open>group_step\<close> adds for a message, and the messages it adds one for.\<close>

definition booking_entry :: "booking_message \<Rightarrow> string \<times> booking_ref list" where
  "booking_entry m =
     (bookingUuid m, [\<lparr>ref_bookingUuid = bookingUuid m, ref_bookingDescription = bookingDescription m\<rparr>])"

fun first_of_each :: "string set \<Rightarrow> booking_message list \<Rightarrow> booking_message list" where
  "first_of_each seen [] = []"
| "first_of_each seen (m # ms) =
     (if bookingUuid m \<in> seen then first_of_each seen ms
      else m # first_of_each (insert (bookingUuid m) seen) ms)"

text \<open>
  The attachments a job is listed with when its promise fulfils: the parsed body of an
  ok response, and \<open>[]\<close> for a response that is not ok.
\<close>

definition attachments_of :: "env \<Rightarrow> json \<Rightarrow> json" where
  "attachments_of e j =
     (case js_prop (Some j) ''uuid'' of
        Inl ex \<Rightarrow> JArr []
      | Inr v \<Rightarrow>
         (case fetch_attachments e v of
            Rejected \<Rightarrow> JArr []
          | Response st b \<Rightarrow> if ok st then (case b of None \<Rightarrow> JArr [] | Some a \<Rightarrow> a) else JArr []))"

section \<open>A sample store and environment\<close>

definition alice :: user where
  "alice = \<lparr>u_id = 1, u_name = ''Alice'', u_email = ''alice@example.com'', u_phone = ''0400'',
            u_password = ''pw-alice'', u_sm8Uuid = None\<rparr>"

definition bob :: user where
  "bob = \<lparr>u_id = 2, u_name = ''Bob'', u_email = ''bob@example.com'', u_phone = ''0500'',
          u_password = ''pw-bob'', u_sm8Uuid = Some ''company-2''\<rparr>"

definition sample_db :: db where
  "sample_db = \<lparr>users = [alice, bob], sessions = [], messages = [], message_seq = 1\<rparr>"

text \<open>
  An environment at time 1000 whose external API answers by \<open>f\<close>; the libraries are
  stand-ins: a password matches its hash when they are equal, a token is its payload
  and lifetime after \<open>jwt:\<close>, and no token verifies.
\<close>

definition sample_env :: "(string \<Rightarrow> fetch_result) \<Rightarrow> env" where
  "sample_env f =
     \<lparr>COOKIE_NAME = ''sid'', JWT_SECRET = ''secret'', NODE_ENV = ''development'', now = 1000,
      fetch = f, fetch_attachments_untyped = (\<lambda>v. Rejected), string_filter = (\<lambda>fs. None),
      bcrypt_compare = (\<lambda>p h. Some (p = h)),
      jwt_sign = (\<lambda>p k x. Some (''jwt:'' @ p @ '':'' @ x)),
      jwt_verify = (\<lambda>t k. False)\<rparr>"

definition login_request :: "string \<Rightarrow> string \<Rightarrow> request" where
  "login_request i p =
     \<lparr>authorization = None, cookies = (\<lambda>n. None), params_uuid = [],
      body_identifier = i, body_password = p, body_message = None\<rparr>"

definition no_contacts :: "string \<Rightarrow> fetch_result" where
  "no_contacts url = Response 200 (Some (JArr []))"

definition one_contact :: "string \<Rightarrow> fetch_result" where
  "one_contact url = Response 200 (Some (JArr [JObj [(''company_uuid'', JStr ''company-1'')]]))"

definition cookie_request :: "string \<Rightarrow> request" where
  "cookie_request t =
     \<lparr>authorization = None, cookies = (\<lambda>n. if n = ''sid'' then Some (JStr t) else None),
      params_uuid = [], body_identifier = [], body_password = [], body_message = None\<rparr>"

text \<open>The request with the header \<open>Cookie: sid=j:{}\<close>, as \<open>cookieParser()\<close> leaves it.\<close>

definition json_cookie_request :: request where
  "json_cookie_request =
     \<lparr>authorization = None, cookies = (\<lambda>n. if n = ''sid'' then Some (JObj []) else None),
      params_uuid = [], body_identifier = [], body_password = [], body_message = None\<rparr>"


definition message_request :: "string \<Rightarrow> string option \<Rightarrow> request" where
  "message_request b m =
     \<lparr>authorization = None, cookies = (\<lambda>n. None),
      params_uuid = b, body_identifier = [], body_password = [], body_message = m\<rparr>"

text \<open>
  A store with a session of Alice that expired at time 5 and whose token is not a
  signed token at all, and a session of Bob.
\<close>

definition stale_db :: db where
  "stale_db = sample_db\<lparr>sessions :=
     [\<lparr>s_userId = 1, s_token = ''not-a-jwt'', s_expiresAt = 5\<rparr>,
      \<lparr>s_userId = 2, s_token = ''bobs-token'', s_expiresAt = 5000\<rparr>]\<rparr>"


definition unreachable :: "string \<Rightarrow> fetch_result" where
  "unreachable url = Rejected"

definition one_job :: "string \<Rightarrow> fetch_result" where
  "one_job url =
     Response 200 (Some (JObj [(''uuid'', JStr ''job-1''), (''job_description'', JStr ''Brake check''),
                              (''status'', JStr ''Quote'')]))"

text \<open>Three messages of Alice on two bookings, and one of Bob.\<close>

definition chat_db :: db where
  "chat_db = sample_db\<lparr>messages :=
     [\<lparr>m_id = 1, bookingUuid = ''job-1'', bookingDescription = ''Brake check'',
       bookingStatus = ''Quote'', m_userId = 1, message = ''When?'', createdAt = 30\<rparr>,
      \<lparr>m_id = 2, bookingUuid = ''job-2'', bookingDescription = ''Tyres'',
       bookingStatus = ''Quote'', m_userId = 1, message = ''How much?'', createdAt = 20\<rparr>,
      \<lparr>m_id = 3, bookingUuid = ''job-1'', bookingDescription = ''Brake check'',
       bookingStatus = ''Work Order'', m_userId = 2, message = ''Tuesday'', createdAt = 10\<rparr>,
      \<lparr>m_id = 4, bookingUuid = ''job-2'', bookingDescription = ''Tyres and alignment'',
       bookingStatus = ''Work Order'', m_userId = 1, message = ''Thanks'', createdAt = 40\<rparr>],
     message_seq := 5\<rparr>"



text \<open>
  An external API with two jobs of Bob's company: the attachment listing of the first
  answers 503, that of the second answers one attachment.
\<close>

definition two_jobs :: "string \<Rightarrow> fetch_result" where
  "two_jobs url =
     (if url = jobs_url ''company-2''
      then Response 200 (Some (JArr [JObj [(''uuid'', JStr ''job-1'')], JObj [(''uuid'', JStr ''job-2'')]]))
      else if url = attachments_url ''job-2''
      then Response 200 (Some (JArr [JObj [(''uuid'', JStr ''file-9'')]]))
      else Response 503 None)"

section \<open>Login\<close>

text \<open>
  C1. A login with matching credentials, for which the contact query answers 200 with
  no contact at all (the empty array), should be answered 404 without a session row.
  On that input the handler reads \<open>company_uuid\<close> of \<open>undefined\<close>, the exception
  reaches the \<open>catch\<close>, and the answer is 500; no session row is written.
\<close>

theorem login_no_contact_is_500:
  "login (sample_env no_contacts) sample_db (login_request ''alice@example.com'' ''pw-alice'')
     = (sample_db, \<lparr>status = 500, body = ErrorBody ''Internal server error'', cookie = NoCookie\<rparr>)"
  by (simp add: login_def sample_env_def sample_db_def alice_def bob_def login_request_def
      no_contacts_def user_findFirst_def response_json_def first_company_uuid_def ok_def
      internal_error_def reply_def)

text \<open>
  What does hold of the contact query: a first contact without a usable \<open>company_uuid\<close>
  is answered 404, and a login that is not answered 200 leaves the sessions as they were.
\<close>

lemma login_contact_without_company_uuid:
  assumes "user_findFirst (body_identifier req) d = Some user"
    and "bcrypt_compare e (body_password req) (u_password user) = Some True"
    and "fetch e (contact_url (u_email user)) = Response st (Some (JArr (JObj fs # rest)))"
    and "ok st" and "\<not> truthy (map_of fs ''company_uuid'')"
  shows "login e d req = (d, reply 404 (ErrorBody ''User not found in ServiceM8''))"
  using assms by (simp add: login_def response_json_def first_company_uuid_def)

lemma login_keeps_sessions_unless_200:
  assumes "status (snd (login e d req)) \<noteq> 200"
  shows "sessions (fst (login e d req)) = sessions d"
  using assms
  by (auto simp: login_def invalid_credentials_def internal_error_def reply_def
      user_update_sm8Uuid_def session_create_def
      split: option.splits sum.splits fetch_result.splits if_splits json.splits)

text \<open>
  C2, as amended. A login answered 200 has signed a token with \<open>expiresIn: "1h"\<close>,
  has appended one session row for the user that holds this token and expires one
  hour (3600000 ms) after the current time, and has set the cookie to this token with
  a \<open>maxAge\<close> of seven days (604800000 ms).
\<close>

theorem login_success_lifetimes:
  assumes "login e d req = (d', r)" and "status r = 200"
  shows "\<exists>user payload token.
           user_findFirst (body_identifier req) d = Some user
         \<and> jwt_sign e payload (JWT_SECRET e) ''1h'' = Some token
         \<and> sessions d' = sessions d @
              [\<lparr>s_userId = u_id user, s_token = token, s_expiresAt = now e + 3600000\<rparr>]
         \<and> cookie r = SetCookie (COOKIE_NAME e) token
              \<lparr>httpOnly = True, secure = (NODE_ENV e = ''production''), sameSite = ''lax'',
               maxAge = Some 604800000\<rparr>"
  using assms
  by (auto simp: login_def invalid_credentials_def internal_error_def reply_def login_cookie_def
      session_create_def user_update_sm8Uuid_def
      split: option.splits sum.splits fetch_result.splits if_splits json.splits)

lemma sample_login:
  "login (sample_env one_contact) sample_db (login_request ''0400'' ''pw-alice'')
     = (sample_db\<lparr>users := [alice\<lparr>u_sm8Uuid := Some ''company-1''\<rparr>, bob],
                  sessions := [\<lparr>s_userId = 1, s_token = ''jwt:company-1:1h'', s_expiresAt = 3601000\<rparr>]\<rparr>,
        \<lparr>status = 200, body = MessageBody ''Logged in successful'',
         cookie = SetCookie ''sid'' ''jwt:company-1:1h''
           \<lparr>httpOnly = True, secure = False, sameSite = ''lax'', maxAge = Some 604800000\<rparr>\<rparr>)"
  by (simp add: login_def sample_env_def sample_db_def alice_def bob_def login_request_def
      one_contact_def user_findFirst_def response_json_def first_company_uuid_def ok_def
      user_update_sm8Uuid_def session_create_def str_of_def login_cookie_def)

theorem login_success_lifetimes_witness:
  "\<exists>user payload token.
      user_findFirst ''0400'' sample_db = Some user
    \<and> jwt_sign (sample_env one_contact) payload ''secret'' ''1h'' = Some token
    \<and> [\<lparr>s_userId = 1, s_token = ''jwt:company-1:1h'', s_expiresAt = 3601000\<rparr>] =
        [\<lparr>s_userId = u_id user, s_token = token, s_expiresAt = 1000 + 3600000\<rparr>]"
  using login_success_lifetimes [OF sample_login]
  by (simp add: sample_env_def sample_db_def login_request_def)

text \<open>
  The session row does not get the seven days of the cookie: on the sample login,
  answered 200, the row expires at 3601000, one hour after time 1000.
\<close>

theorem login_session_row_not_7_days:
  "status (snd (login (sample_env one_contact) sample_db (login_request ''0400'' ''pw-alice''))) = 200
   \<and> map s_expiresAt
        (sessions (fst (login (sample_env one_contact) sample_db (login_request ''0400'' ''pw-alice''))))
      \<noteq> [now (sample_env one_contact) + 7 * 24 * 60 * 60 * 1000]"
  by (simp add: sample_login) (simp add: sample_env_def)

text \<open>
  C4. A login whose password does not match the stored hash is answered exactly as a
  login whose identifier matches no user: status 404, the same error body, no cookie,
  and the store as it was.
\<close>

theorem login_wrong_password_as_unknown_user:
  assumes "user_findFirst (body_identifier r1) d1 = None"
    and "user_findFirst (body_identifier r2) d2 = Some u"
    and "bcrypt_compare e2 (body_password r2) (u_password u) = Some False"
  shows "login e1 d1 r1 = (d1, reply 404 (ErrorBody ''Invalid email or phone and password''))
       \<and> login e2 d2 r2 = (d2, reply 404 (ErrorBody ''Invalid email or phone and password''))"
  using assms by (simp add: login_def invalid_credentials_def)

theorem login_wrong_password_as_unknown_user_witness:
  "snd (login (sample_env one_contact) sample_db (login_request ''nobody@example.com'' ''pw-alice''))
   = snd (login (sample_env one_contact) sample_db (login_request ''alice@example.com'' ''guess''))"
proof -
  have a: "user_findFirst (body_identifier (login_request ''nobody@example.com'' ''pw-alice'')) sample_db = None"
    by (simp add: user_findFirst_def login_request_def sample_db_def alice_def bob_def)
  have b: "user_findFirst (body_identifier (login_request ''alice@example.com'' ''guess'')) sample_db = Some alice"
    by (simp add: user_findFirst_def login_request_def sample_db_def alice_def bob_def)
  have c: "bcrypt_compare (sample_env one_contact)
             (body_password (login_request ''alice@example.com'' ''guess'')) (u_password alice) = Some False"
    by (simp add: sample_env_def login_request_def alice_def)
  from login_wrong_password_as_unknown_user [OF a b c, of "sample_env one_contact"]
  show ?thesis by simp
qed

section \<open>Session check, middleware and logout\<close>

text \<open>
  C3. A request whose cookie holds a non-empty token that is the token of a session row
  is authenticated as that row's user and reaches the protected handler, whatever
  \<open>jwt.verify\<close> would say of the token, whatever the clock reads and whatever the
  row's \<open>expiresAt\<close> is. Every session row is taken to have its user, as the foreign
  key of the table guarantees.
\<close>

theorem middleware_accepts_any_stored_token:
  assumes "cookies req (COOKIE_NAME e) = Some (JStr t)" and "t \<noteq> []"
    and "s \<in> set (sessions d)" and "s_token s = t"
    and "\<forall>r\<in>set (sessions d). user_by_id (s_userId r) d \<noteq> None"
  shows "\<exists>r u. session_find t d = Some r \<and> user_by_id (s_userId r) d = Some u
     \<and> (\<forall>verify clock.
            authMiddleware (e\<lparr>jwt_verify := verify, now := clock\<rparr>) d req = Next u
          \<and> protected (e\<lparr>jwt_verify := verify, now := clock\<rparr>) d req handler = handler (Some u))"
proof -
  from assms(3,4) obtain r where r: "session_find t d = Some r"
    by (cases "session_find t d") (auto simp: session_find_def find_None_iff)
  then have "r \<in> set (sessions d)"
    by (auto simp: session_find_def find_Some_iff)
  with assms(5) obtain u where u: "user_by_id (s_userId r) d = Some u"
    by auto
  from assms(1,2) r u show ?thesis
    by (simp add: authMiddleware_def protected_def)
qed

text \<open>
  On the sample store the token \<open>not-a-jwt\<close> of a session that expired at time 5 is
  accepted at time 1000 by the middleware, while the session check answers 401 to it.
\<close>

theorem middleware_accepts_any_stored_token_witness:
  "authMiddleware (sample_env unreachable) stale_db (cookie_request ''not-a-jwt'') = Next alice
   \<and> s_expiresAt (hd (sessions stale_db)) < now (sample_env unreachable)
   \<and> \<not> jwt_verify (sample_env unreachable) ''not-a-jwt'' (JWT_SECRET (sample_env unreachable))
   \<and> status (check_session (sample_env unreachable) stale_db (cookie_request ''not-a-jwt'')) = 401"
proof -
  let ?s = "\<lparr>s_userId = 1, s_token = ''not-a-jwt'', s_expiresAt = 5\<rparr>"
  have 1: "cookies (cookie_request ''not-a-jwt'') (COOKIE_NAME (sample_env unreachable)) = Some (JStr ''not-a-jwt'')"
    by (simp add: cookie_request_def sample_env_def)
  have 2: "''not-a-jwt'' \<noteq> []"
    by simp
  have 3: "?s \<in> set (sessions stale_db)"
    by (simp add: stale_db_def)
  have 4: "s_token ?s = ''not-a-jwt''"
    by simp
  have 5: "\<forall>r\<in>set (sessions stale_db). user_by_id (s_userId r) stale_db \<noteq> None"
    by (simp add: stale_db_def sample_db_def user_by_id_def alice_def bob_def)
  have find: "session_find ''not-a-jwt'' stale_db = Some ?s"
    by (simp add: session_find_def stale_db_def)
  have user: "user_by_id 1 stale_db = Some alice"
    by (simp add: user_by_id_def stale_db_def sample_db_def alice_def)
  from middleware_accepts_any_stored_token [OF 1 2 3 4 5] find user
  have "authMiddleware (sample_env unreachable\<lparr>jwt_verify := \<lambda>t k. False, now := 1000\<rparr>)
          stale_db (cookie_request ''not-a-jwt'') = Next alice"
    by auto
  then have "authMiddleware (sample_env unreachable) stale_db (cookie_request ''not-a-jwt'') = Next alice"
    by (simp add: sample_env_def)
  moreover have "s_expiresAt (hd (sessions stale_db)) < now (sample_env unreachable)"
    by (simp add: stale_db_def sample_env_def)
  moreover have "\<not> jwt_verify (sample_env unreachable) ''not-a-jwt'' (JWT_SECRET (sample_env unreachable))"
    by (simp add: sample_env_def)
  moreover have "status (check_session (sample_env unreachable) stale_db (cookie_request ''not-a-jwt'')) = 401"
    by (simp add: check_session_def session_token_def js_or_def extractToken_def
        cookie_request_def sample_env_def reply_def)
  ultimately show ?thesis by simp
qed






text \<open>
  Logout with a string cookie: none, or an empty one, is answered 400 and leaves the
  store as it is; a non-empty one removes exactly the session rows whose token is the
  cookie's value, clears the cookie and is answered 200. A cookie that holds a number is
  answered 500.
\<close>

lemma logout_string_cookie:
  "(\<not> truthy (cookies req (COOKIE_NAME e))
      \<longrightarrow> logout e d req = (d, reply 400 (ErrorBody ''No active session found'')))
 \<and> (\<forall>t. cookies req (COOKIE_NAME e) = Some (JStr t) \<and> t \<noteq> [] \<longrightarrow>
       logout e d req =
         (d\<lparr>sessions := filter (\<lambda>s. s_token s \<noteq> t) (sessions d)\<rparr>,
          \<lparr>status = 200, body = MessageBody ''Logged out successfully'',
           cookie = ClearCookie (COOKIE_NAME e)
             \<lparr>httpOnly = True, secure = (NODE_ENV e = ''production''), sameSite = ''lax'',
              maxAge = None\<rparr>\<rparr>))"
  by (auto simp: logout_def session_deleteMany_def clear_options_def split: option.splits)

lemma logout_number_cookie:
  "cookies req (COOKIE_NAME e) = Some (JNum n) \<Longrightarrow> n \<noteq> 0 \<Longrightarrow> logout e d req = (d, internal_error)"
  by (simp add: logout_def session_deleteMany_def)

text \<open>
  C9. Logout with a cookie should delete the session rows whose token equals the
  cookie's value, and no other. On the request with the header \<open>Cookie: sid=j:{}\<close> the
  cookie arrives as the object \<open>{}\<close>, which is truthy and which \<open>deleteMany\<close> reads as
  a filter without condition: both session rows of the sample store are deleted,
  neither of which has that value as its token, and the answer is 200.
\<close>

theorem logout_json_cookie_deletes_every_session:
  "map s_token (sessions stale_db) = [''not-a-jwt'', ''bobs-token'']
   \<and> logout (sample_env unreachable) stale_db json_cookie_request =
       (stale_db\<lparr>sessions := []\<rparr>,
        \<lparr>status = 200, body = MessageBody ''Logged out successfully'',
         cookie = ClearCookie ''sid''
           \<lparr>httpOnly = True, secure = False, sameSite = ''lax'', maxAge = None\<rparr>\<rparr>)"
  by (simp add: logout_def session_deleteMany_def clear_options_def json_cookie_request_def
      sample_env_def stale_db_def)

section \<open>Messages\<close>

text \<open>
  C7, as amended. For a user of the store: a send-message request with an empty or
  absent message is answered 400 and nothing is persisted. With a non-empty message,
  when the job fetch of that request yields a JSON object whose \<open>job_description\<close> and
  \<open>status\<close> are strings, exactly one row is appended, holding the booking UUID of
  the path, that description and status, the user and the message, and this row is
  the response; in every other case (the fetch rejects, its body is not such an
  object) the answer is 500 and nothing is persisted.
\<close>

theorem send_message_outcomes:
  assumes "user_by_id (u_id u) d \<noteq> None"
  shows "(\<not> truthy_str (body_message req)
           \<longrightarrow> send_message e d req (Some u) = (d, reply 400 (ErrorBody ''Message is required'')))
   \<and> (\<forall>m st fs ds ss.
         body_message req = Some m \<and> m \<noteq> []
       \<and> fetch e (job_url (params_uuid req)) = Response st (Some (JObj fs))
       \<and> map_of fs ''job_description'' = Some (JStr ds) \<and> map_of fs ''status'' = Some (JStr ss)
       \<longrightarrow> send_message e d req (Some u) =
             (d\<lparr>messages := messages d @
                   [\<lparr>m_id = message_seq d, bookingUuid = params_uuid req, bookingDescription = ds,
                     bookingStatus = ss, m_userId = u_id u, message = m, createdAt = now e\<rparr>],
                 message_seq := message_seq d + 1\<rparr>,
              reply 200 (SavedMessage
                   \<lparr>m_id = message_seq d, bookingUuid = params_uuid req, bookingDescription = ds,
                     bookingStatus = ss, m_userId = u_id u, message = m, createdAt = now e\<rparr>)))
   \<and> (truthy_str (body_message req)
       \<and> \<not> (\<exists>st fs ds ss. fetch e (job_url (params_uuid req)) = Response st (Some (JObj fs))
             \<and> map_of fs ''job_description'' = Some (JStr ds) \<and> map_of fs ''status'' = Some (JStr ss))
       \<longrightarrow> send_message e d req (Some u) = (d, internal_error))"
proof (intro conjI allI impI)
  assume "\<not> truthy_str (body_message req)"
  then show "send_message e d req (Some u) = (d, reply 400 (ErrorBody ''Message is required''))"
    by (simp add: send_message_def)
next
  fix m st fs ds ss
  assume "body_message req = Some m \<and> m \<noteq> []
       \<and> fetch e (job_url (params_uuid req)) = Response st (Some (JObj fs))
       \<and> map_of fs ''job_description'' = Some (JStr ds) \<and> map_of fs ''status'' = Some (JStr ss)"
  with assms show "send_message e d req (Some u) =
             (d\<lparr>messages := messages d @
                   [\<lparr>m_id = message_seq d, bookingUuid = params_uuid req, bookingDescription = ds,
                     bookingStatus = ss, m_userId = u_id u, message = m, createdAt = now e\<rparr>],
                 message_seq := message_seq d + 1\<rparr>,
              reply 200 (SavedMessage
                   \<lparr>m_id = message_seq d, bookingUuid = params_uuid req, bookingDescription = ds,
                     bookingStatus = ss, m_userId = u_id u, message = m, createdAt = now e\<rparr>))"
    by (auto simp: send_message_def truthy_str_def fetchJobDetails_def response_json_def
        bookingMessage_create_def Let_def)
next
  assume a: "truthy_str (body_message req)
       \<and> \<not> (\<exists>st fs ds ss. fetch e (job_url (params_uuid req)) = Response st (Some (JObj fs))
             \<and> map_of fs ''job_description'' = Some (JStr ds) \<and> map_of fs ''status'' = Some (JStr ss))"
  show "send_message e d req (Some u) = (d, internal_error)"
  proof (cases "fetch e (job_url (params_uuid req))")
    case Rejected
    with a show ?thesis by (simp add: send_message_def fetchJobDetails_def)
  next
    case (Response st b)
    show ?thesis
    proof (cases b)
      case None
      with a Response show ?thesis
        by (simp add: send_message_def fetchJobDetails_def response_json_def)
    next
      case (Some j)
      with a Response show ?thesis
        by (cases j)
           (auto simp: send_message_def fetchJobDetails_def response_json_def
              bookingMessage_create_def
              split: option.splits json.splits sum.splits)
    qed
  qed
qed

text \<open>
  Alice writes on booking \<open>job-1\<close> while the external API knows the job: the row is
  appended with the fetched description and status, and returned.
\<close>

theorem send_message_outcomes_witness:
  "send_message (sample_env one_job) sample_db (message_request ''job-1'' (Some ''When?'')) (Some alice)
     = (sample_db\<lparr>messages :=
          [\<lparr>m_id = 1, bookingUuid = ''job-1'', bookingDescription = ''Brake check'',
            bookingStatus = ''Quote'', m_userId = 1, message = ''When?'', createdAt = 1000\<rparr>],
          message_seq := 2\<rparr>,
        reply 200 (SavedMessage
          \<lparr>m_id = 1, bookingUuid = ''job-1'', bookingDescription = ''Brake check'',
            bookingStatus = ''Quote'', m_userId = 1, message = ''When?'', createdAt = 1000\<rparr>))
   \<and> send_message (sample_env one_job) sample_db (message_request ''job-1'' (Some [])) (Some alice)
     = (sample_db, reply 400 (ErrorBody ''Message is required''))"
proof -
  let ?e = "sample_env one_job"
  let ?fs = "[(''uuid'', JStr ''job-1''), (''job_description'', JStr ''Brake check''),
              (''status'', JStr ''Quote'')]"
  have u: "user_by_id (u_id alice) sample_db \<noteq> None"
    by (simp add: user_by_id_def sample_db_def alice_def)
  have h: "body_message (message_request ''job-1'' (Some ''When?'')) = Some ''When?'' \<and> ''When?'' \<noteq> []
       \<and> fetch ?e (job_url (params_uuid (message_request ''job-1'' (Some ''When?'')))) = Response 200 (Some (JObj ?fs))
       \<and> map_of ?fs ''job_description'' = Some (JStr ''Brake check'')
       \<and> map_of ?fs ''status'' = Some (JStr ''Quote'')"
    by (simp add: message_request_def sample_env_def one_job_def)
  have empty: "\<not> truthy_str (body_message (message_request ''job-1'' (Some [])))"
    by (simp add: message_request_def truthy_str_def)
  from send_message_outcomes [OF u, of "message_request ''job-1'' (Some ''When?'')" ?e] h
  have "send_message ?e sample_db (message_request ''job-1'' (Some ''When?'')) (Some alice) =
          (sample_db\<lparr>messages := messages sample_db @
              [\<lparr>m_id = message_seq sample_db,
                bookingUuid = params_uuid (message_request ''job-1'' (Some ''When?'')),
                bookingDescription = ''Brake check'', bookingStatus = ''Quote'',
                m_userId = u_id alice, message = ''When?'', createdAt = now ?e\<rparr>],
              message_seq := message_seq sample_db + 1\<rparr>,
           reply 200 (SavedMessage
              \<lparr>m_id = message_seq sample_db,
                bookingUuid = params_uuid (message_request ''job-1'' (Some ''When?'')),
                bookingDescription = ''Brake check'', bookingStatus = ''Quote'',
                m_userId = u_id alice, message = ''When?'', createdAt = now ?e\<rparr>))"
    by blast
  moreover from send_message_outcomes [OF u, of "message_request ''job-1'' (Some [])" ?e] empty
  have "send_message ?e sample_db (message_request ''job-1'' (Some [])) (Some alice)
          = (sample_db, reply 400 (ErrorBody ''Message is required''))"
    by blast
  ultimately show ?thesis
    by (simp add: sample_db_def alice_def sample_env_def message_request_def)
qed

text \<open>
  Not every non-empty message persists a row: when the job fetch rejects, Alice's
  non-empty message is answered 500 and the table of messages stays empty.
\<close>

theorem send_message_fetch_rejected:
  "truthy_str (body_message (message_request ''job-1'' (Some ''When?'')))
   \<and> send_message (sample_env unreachable) sample_db (message_request ''job-1'' (Some ''When?'')) (Some alice)
     = (sample_db, \<lparr>status = 500, body = ErrorBody ''Internal server error'', cookie = NoCookie\<rparr>)
   \<and> messages sample_db = []"
  by (simp add: send_message_def fetchJobDetails_def sample_env_def unreachable_def
      message_request_def truthy_str_def internal_error_def reply_def sample_db_def)

lemma find_by_key:
  "distinct (map f xs) \<Longrightarrow> x \<in> set xs \<Longrightarrow> find (\<lambda>y. f y = f x) xs = Some x"
  by (induction xs) auto

text \<open>
  C8. In a store where user ids are unique and every message refers to a user, the
  listing of a booking answers 200 with exactly the persisted messages of that booking
  UUID (as a multiset), in ascending order of creation time, each with the \<open>id\<close>,
  \<open>name\<close> and \<open>email\<close>, and nothing else, of the user whose id is the message's
  \<open>userId\<close>.
\<close>

theorem get_messages_sorted_complete:
  assumes "distinct (map u_id (users d))"
    and "\<forall>m\<in>set (messages d). \<exists>u\<in>set (users d). u_id u = m_userId m"
  shows "\<exists>rows. get_messages d req = reply 200 (MessageList rows)
     \<and> mset (map msg rows) = mset (filter (\<lambda>m. bookingUuid m = params_uuid req) (messages d))
     \<and> sorted (map (\<lambda>r. createdAt (msg r)) rows)
     \<and> (\<forall>r\<in>set rows. \<exists>u\<in>set (users d). u_id u = m_userId (msg r))
     \<and> (\<forall>r\<in>set rows. \<forall>u\<in>set (users d). u_id u = m_userId (msg r) \<longrightarrow>
           msg_user r = Some \<lparr>a_id = u_id u, a_name = u_name u, a_email = u_email u\<rparr>)"
proof -
  let ?ms = "sort_key createdAt (filter (\<lambda>m. bookingUuid m = params_uuid req) (messages d))"
  let ?row = "\<lambda>m. \<lparr>msg = m, msg_user = map_option author_of (user_by_id (m_userId m) d)\<rparr>"
  have 1: "get_messages d req = reply 200 (MessageList (map ?row ?ms))"
    by (simp add: get_messages_def)
  have m: "map msg (map ?row ?ms) = ?ms"
    by (simp add: comp_def)
  have 2: "mset (map msg (map ?row ?ms)) = mset (filter (\<lambda>m. bookingUuid m = params_uuid req) (messages d))"
    unfolding m by simp
  have "sorted (map createdAt ?ms)"
    by (rule sorted_sort_key)
  then have 3: "sorted (map (\<lambda>r. createdAt (msg r)) (map ?row ?ms))"
    by (simp add: comp_def)
  have 4: "\<forall>r\<in>set (map ?row ?ms). \<exists>u\<in>set (users d). u_id u = m_userId (msg r)"
    using assms(2) by auto
  have 5: "\<forall>r\<in>set (map ?row ?ms). \<forall>u\<in>set (users d). u_id u = m_userId (msg r) \<longrightarrow>
           msg_user r = Some \<lparr>a_id = u_id u, a_name = u_name u, a_email = u_email u\<rparr>"
  proof (intro ballI impI)
    fix r u
    assume "r \<in> set (map ?row ?ms)" and u: "u \<in> set (users d)" "u_id u = m_userId (msg r)"
    then obtain x where r: "r = ?row x"
      by auto
    from find_by_key [OF assms(1) u(1)] u(2) r have "user_by_id (m_userId x) d = Some u"
      by (simp add: user_by_id_def)
    with r show "msg_user r = Some \<lparr>a_id = u_id u, a_name = u_name u, a_email = u_email u\<rparr>"
      by (simp add: author_of_def)
  qed
  from 1 2 3 4 5 show ?thesis by blast
qed

text \<open>
  On the sample store the two messages of booking \<open>job-1\<close> come oldest first, Bob's with
  Bob's id, name and email and Alice's with hers.
\<close>

lemma sample_get_messages:
  "get_messages chat_db (message_request ''job-1'' None) =
     reply 200 (MessageList
       [\<lparr>msg = \<lparr>m_id = 3, bookingUuid = ''job-1'', bookingDescription = ''Brake check'',
                bookingStatus = ''Work Order'', m_userId = 2, message = ''Tuesday'', createdAt = 10\<rparr>,
         msg_user = Some \<lparr>a_id = 2, a_name = ''Bob'', a_email = ''bob@example.com''\<rparr>\<rparr>,
        \<lparr>msg = \<lparr>m_id = 1, bookingUuid = ''job-1'', bookingDescription = ''Brake check'',
                bookingStatus = ''Quote'', m_userId = 1, message = ''When?'', createdAt = 30\<rparr>,
         msg_user = Some \<lparr>a_id = 1, a_name = ''Alice'', a_email = ''alice@example.com''\<rparr>\<rparr>])"
  by (simp add: get_messages_def chat_db_def sample_db_def message_request_def user_by_id_def
      author_of_def alice_def bob_def)

theorem get_messages_sorted_complete_witness:
  "\<exists>rows. get_messages chat_db (message_request ''job-1'' None) = reply 200 (MessageList rows)
     \<and> map (\<lambda>r. m_id (msg r)) rows = [3, 1]
     \<and> map msg_user rows =
         [Some \<lparr>a_id = 2, a_name = ''Bob'', a_email = ''bob@example.com''\<rparr>,
          Some \<lparr>a_id = 1, a_name = ''Alice'', a_email = ''alice@example.com''\<rparr>]
     \<and> sorted (map (\<lambda>r. createdAt (msg r)) rows)
     \<and> (\<forall>r\<in>set rows. \<forall>u\<in>set (users chat_db). u_id u = m_userId (msg r) \<longrightarrow>
           msg_user r = Some \<lparr>a_id = u_id u, a_name = u_name u, a_email = u_email u\<rparr>)"
proof -
  let ?req = "message_request ''job-1'' None"
  have ids: "distinct (map u_id (users chat_db))"
    by (simp add: chat_db_def sample_db_def alice_def bob_def)
  have fk: "\<forall>m\<in>set (messages chat_db). \<exists>u\<in>set (users chat_db). u_id u = m_userId m"
    by (simp add: chat_db_def sample_db_def alice_def bob_def)
  from get_messages_sorted_complete [OF ids fk, of ?req]
  obtain rows where rows: "get_messages chat_db ?req = reply 200 (MessageList rows)
     \<and> mset (map msg rows) = mset (filter (\<lambda>m. bookingUuid m = params_uuid ?req) (messages chat_db))
     \<and> sorted (map (\<lambda>r. createdAt (msg r)) rows)
     \<and> (\<forall>r\<in>set rows. \<exists>u\<in>set (users chat_db). u_id u = m_userId (msg r))
     \<and> (\<forall>r\<in>set rows. \<forall>u\<in>set (users chat_db). u_id u = m_userId (msg r) \<longrightarrow>
           msg_user r = Some \<lparr>a_id = u_id u, a_name = u_name u, a_email = u_email u\<rparr>)" ..
  note listed = rows [THEN conjunct1]
    and ascending = rows [THEN conjunct2, THEN conjunct2, THEN conjunct1]
    and joined = rows [THEN conjunct2, THEN conjunct2, THEN conjunct2, THEN conjunct2]
  from listed have shape: "rows =
       [\<lparr>msg = \<lparr>m_id = 3, bookingUuid = ''job-1'', bookingDescription = ''Brake check'',
                bookingStatus = ''Work Order'', m_userId = 2, message = ''Tuesday'', createdAt = 10\<rparr>,
         msg_user = Some \<lparr>a_id = 2, a_name = ''Bob'', a_email = ''bob@example.com''\<rparr>\<rparr>,
        \<lparr>msg = \<lparr>m_id = 1, bookingUuid = ''job-1'', bookingDescription = ''Brake check'',
                bookingStatus = ''Quote'', m_userId = 1, message = ''When?'', createdAt = 30\<rparr>,
         msg_user = Some \<lparr>a_id = 1, a_name = ''Alice'', a_email = ''alice@example.com''\<rparr>\<rparr>]"
    by (simp add: sample_get_messages reply_def)
  then have ids: "map (\<lambda>r. m_id (msg r)) rows = [3, 1]"
    and authors: "map msg_user rows =
         [Some \<lparr>a_id = 2, a_name = ''Bob'', a_email = ''bob@example.com''\<rparr>,
          Some \<lparr>a_id = 1, a_name = ''Alice'', a_email = ''alice@example.com''\<rparr>]"
    by simp_all
  from listed ids authors ascending joined show ?thesis
    by (intro exI [of _ rows] conjI)
qed

lemma group_step_fold:
  assumes "\<forall>m\<in>set ms. bookingUuid m \<notin> set object_prototype_names"
  shows "foldl group_step g ms = g @ map booking_entry (first_of_each (fst ` set g) ms)"
  using assms
proof (induction ms arbitrary: g)
  case Nil
  then show ?case by simp
next
  case (Cons m ms)
  show ?case
  proof (cases "bookingUuid m \<in> fst ` set g")
    case True
    then have "group_step g m = g"
      by (simp add: group_step_def grouped_truthy_def map_of_eq_None_iff)
    with True Cons.IH [of g] Cons.prems show ?thesis by simp
  next
    case False
    with Cons.prems have "group_step g m = g @ [booking_entry m]"
      by (simp add: group_step_def grouped_truthy_def map_of_eq_None_iff booking_entry_def)
    with False Cons.IH [of "g @ [booking_entry m]"] Cons.prems show ?thesis
      by (simp add: booking_entry_def)
  qed
qed

lemma own_entries_plain:
  "\<forall>kv\<in>set obj. array_index (fst kv) = None \<Longrightarrow> own_entries obj = obj"
  by (simp add: own_entries_def filter_id_conv filter_empty_conv)

lemma decimal_not_digit:
  "c \<in> set k \<Longrightarrow> digit_value c = None \<Longrightarrow> decimal acc k = None"
  by (induction k arbitrary: acc) (auto split: option.splits)

text \<open>A key that holds a hyphen, as every UUID does, is a plain key.\<close>

lemma hyphen_key_plain: "CHR ''-'' \<in> set k \<Longrightarrow> plain_key k"
proof -
  assume h: "CHR ''-'' \<in> set k"
  have "digit_value CHR ''-'' = None"
    by (simp add: digit_value_def)
  with h have d: "decimal 0 k = None"
    by (rule decimal_not_digit)
  have "array_index k = None"
  proof (cases k)
    case Nil
    then show ?thesis by (simp add: array_index_def)
  next
    case (Cons c cs)
    with d show ?thesis by (simp add: array_index_def del: decimal.simps)
  qed
  moreover from h have "k \<notin> set object_prototype_names"
    by (auto simp: object_prototype_names_def)
  ultimately show ?thesis
    by (simp add: plain_key_def)
qed

lemma first_of_each_subset: "set (first_of_each seen ms) \<subseteq> set ms"
  by (induction ms arbitrary: seen) auto

lemma first_of_each_keys:
  "bookingUuid ` set (first_of_each seen ms) = bookingUuid ` set ms - seen"
  by (induction ms arbitrary: seen) auto

lemma first_of_each_distinct: "distinct (map bookingUuid (first_of_each seen ms))"
  by (induction ms arbitrary: seen) (auto simp: first_of_each_keys)

lemma first_of_each_sorted_wrt:
  "sorted_wrt P ms \<Longrightarrow> sorted_wrt P (first_of_each seen ms)"
  using first_of_each_subset by (induction ms arbitrary: seen) fastforce+

text \<open>
  In a list ordered newest first, the message kept for a booking is at least as recent
  as every message of that booking.
\<close>

lemma first_of_each_newest:
  "sorted_wrt (\<lambda>a b. createdAt b \<le> createdAt a) ms \<Longrightarrow> x \<in> set (first_of_each seen ms)
     \<Longrightarrow> y \<in> set ms \<Longrightarrow> bookingUuid y = bookingUuid x \<Longrightarrow> createdAt y \<le> createdAt x"
proof (induction ms arbitrary: seen)
  case Nil
  then show ?case by simp
next
  case (Cons m ms)
  have notseen: "bookingUuid x \<notin> seen"
    using Cons.prems(2) first_of_each_keys [of seen "m # ms"] by blast
  show ?case
  proof (cases "bookingUuid m \<in> seen")
    case True
    with Cons.prems notseen have "x \<in> set (first_of_each seen ms)" "y \<in> set ms"
      by auto
    with Cons show ?thesis by simp
  next
    case False
    show ?thesis
    proof (cases "x = m")
      case True
      with Cons.prems(1,3) show ?thesis by auto
    next
      case xm: False
      with False Cons.prems(2) have x: "x \<in> set (first_of_each (insert (bookingUuid m) seen) ms)"
        by simp
      then have "bookingUuid x \<noteq> bookingUuid m"
        using first_of_each_keys [of "insert (bookingUuid m) seen" ms] by blast
      with Cons.prems(3,4) have "y \<in> set ms" by auto
      with Cons x show ?thesis by simp
    qed
  qed
qed

lemma latest_activity_first:
  assumes "sorted_wrt (\<lambda>a b. createdAt b \<le> createdAt a) xs" and "x \<in> set (first_of_each {} xs)"
    and "set xs = set ms"
  shows "latest_activity ms (bookingUuid x) = createdAt x"
proof -
  have x: "x \<in> set xs"
    using assms(2) first_of_each_subset by blast
  show ?thesis
    unfolding latest_activity_def
  proof (rule Max_eqI)
    show "finite (set (map createdAt (filter (\<lambda>m. bookingUuid m = bookingUuid x) ms)))"
      by simp
    show "createdAt x \<in> set (map createdAt (filter (\<lambda>m. bookingUuid m = bookingUuid x) ms))"
      using x assms(3) by auto
    fix t assume "t \<in> set (map createdAt (filter (\<lambda>m. bookingUuid m = bookingUuid x) ms))"
    then obtain y where "y \<in> set xs" "bookingUuid y = bookingUuid x" "t = createdAt y"
      using assms(3) by auto
    with first_of_each_newest [OF assms(1,2)] show "t \<le> createdAt x"
      by simp
  qed
qed

lemma newest_first:
  "sorted_wrt (\<lambda>a b. createdAt b \<le> createdAt a) (rev (sort_key createdAt ms))"
proof -
  have "sorted (map createdAt (sort_key createdAt ms))"
    by (rule sorted_sort_key)
  then have "sorted_wrt (\<lambda>a b. createdAt a \<le> createdAt b) (sort_key createdAt ms)"
    by (simp add: sorted_wrt_map)
  then show ?thesis
    by (simp add: sorted_wrt_rev)
qed

text \<open>
  The grouped listing on plain keys. For a user \<open>u\<close> whose messages \<open>ms\<close> are all on
  bookings with a plain key, the listing answers 200 with an object that has one key per
  booking UUID occurring in \<open>ms\<close> and no other key, each key once; the value of a key
  is a single entry with that UUID and the description of a most recent message of the
  booking; and the keys are in descending order of the booking's most recent message.
\<close>

lemma list_bookings_plain_keys:
  assumes "ms = filter (\<lambda>m. m_userId m = u_id u) (messages d)"
    and "\<forall>m\<in>set ms. plain_key (bookingUuid m)"
  shows "\<exists>g. list_bookings d (Some u) = reply 200 (Grouped g)
     \<and> distinct (map fst g)
     \<and> set (map fst g) = bookingUuid ` set ms
     \<and> (\<forall>(k, v)\<in>set g. \<exists>m\<in>set ms. bookingUuid m = k \<and> createdAt m = latest_activity ms k
            \<and> v = [\<lparr>ref_bookingUuid = k, ref_bookingDescription = bookingDescription m\<rparr>])
     \<and> sorted_wrt (\<lambda>a b. latest_activity ms b \<le> latest_activity ms a) (map fst g)"
proof -
  let ?xs = "rev (sort_key createdAt ms)"
  let ?fs = "first_of_each {} ?xs"
  let ?g = "map booking_entry ?fs"
  have desc: "sorted_wrt (\<lambda>a b. createdAt b \<le> createdAt a) ?xs"
    by (rule newest_first)
  have same: "set ?xs = set ms"
    by simp
  have latest: "latest_activity ms (bookingUuid x) = createdAt x" if "x \<in> set ?fs" for x
    using latest_activity_first [OF desc that same] .
  have keys: "map fst ?g = map bookingUuid ?fs"
    by (simp add: booking_entry_def comp_def)
  have sub: "set ?fs \<subseteq> set ms"
    using first_of_each_subset [of "{}" ?xs] by simp
  have "\<forall>m\<in>set ?xs. bookingUuid m \<notin> set object_prototype_names"
    using assms(2) by (simp add: plain_key_def)
  then have folded: "foldl group_step [] ?xs = ?g"
    using group_step_fold [of ?xs "[]"] by simp
  have "\<forall>kv\<in>set ?g. array_index (fst kv) = None"
    using assms(2) sub by (auto simp: booking_entry_def plain_key_def)
  then have "own_entries ?g = ?g"
    by (rule own_entries_plain)
  with folded have 1: "list_bookings d (Some u) = reply 200 (Grouped ?g)"
    by (simp add: list_bookings_def messages_of_def assms(1))
  have 2: "distinct (map fst ?g)"
    unfolding keys by (rule first_of_each_distinct)
  have 3: "set (map fst ?g) = bookingUuid ` set ms"
    unfolding keys using first_of_each_keys [of "{}" ?xs] by simp
  have 4: "\<forall>(k, v)\<in>set ?g. \<exists>m\<in>set ms. bookingUuid m = k \<and> createdAt m = latest_activity ms k
            \<and> v = [\<lparr>ref_bookingUuid = k, ref_bookingDescription = bookingDescription m\<rparr>]"
  proof (clarify)
    fix k v assume "(k, v) \<in> set ?g"
    then obtain x where x: "x \<in> set ?fs" "(k, v) = booking_entry x"
      by auto
    then have "x \<in> set ms"
      using sub by auto
    with x latest [OF x(1)]
    show "\<exists>m\<in>set ms. bookingUuid m = k \<and> createdAt m = latest_activity ms k
            \<and> v = [\<lparr>ref_bookingUuid = k, ref_bookingDescription = bookingDescription m\<rparr>]"
      by (auto simp: booking_entry_def)
  qed
  have "sorted_wrt (\<lambda>a b. createdAt b \<le> createdAt a) ?fs"
    using desc by (rule first_of_each_sorted_wrt)
  then have "sorted_wrt (\<lambda>a b. latest_activity ms (bookingUuid b) \<le> latest_activity ms (bookingUuid a)) ?fs"
    by (rule sorted_wrt_mono_rel [rotated]) (simp add: latest)
  then have 5: "sorted_wrt (\<lambda>a b. latest_activity ms b \<le> latest_activity ms a) (map fst ?g)"
    unfolding keys by (simp add: sorted_wrt_map)
  from 1 2 3 4 5 show ?thesis by blast
qed

text \<open>
  Alice has one message on \<open>job-1\<close> (time 30) and two on \<open>job-2\<close> (times 20 and
  40): the listing has \<open>job-2\<close> first, with the description of its newest message,
  then \<open>job-1\<close>.
\<close>

lemma sample_list_bookings:
  "list_bookings chat_db (Some alice) =
     reply 200 (Grouped
       [(''job-2'', [\<lparr>ref_bookingUuid = ''job-2'', ref_bookingDescription = ''Tyres and alignment''\<rparr>]),
        (''job-1'', [\<lparr>ref_bookingUuid = ''job-1'', ref_bookingDescription = ''Brake check''\<rparr>])])"
  by (simp add: list_bookings_def messages_of_def chat_db_def sample_db_def alice_def
      group_step_def grouped_truthy_def object_prototype_names_def own_entries_def
      array_index_def digit_value_def)


section \<open>Job listing\<close>

lemma promise_all_map:
  "\<forall>x\<in>set xs. f x = Inr (g x) \<Longrightarrow> promise_all (map f xs) = Inr (map g xs)"
  by (induction xs) auto

text \<open>
  C10. When the job query answers ok with an array of jobs and every attachment
  request resolves to a response (ok with a JSON body, or not ok), the listing answers
  200 with every job in order, and each job whose attachment response is not ok is
  listed with the attachments \<open>[]\<close>.
\<close>

theorem list_jobs_swallows_failed_attachments:
  assumes "u_sm8Uuid u = Some c" and "c \<noteq> []"
    and "fetch e (jobs_url c) = Response st (Some (JArr js))" and "ok st"
    and "\<forall>j\<in>set js. \<exists>v st' b. js_prop (Some j) ''uuid'' = Inr v
            \<and> fetch_attachments e v = Response st' b \<and> (ok st' \<longrightarrow> b \<noteq> None)"
  shows "\<exists>xs. list_jobs e (Some u) = reply 200 (JobsBody xs)
       \<and> map job xs = js
       \<and> (\<forall>i<length js. \<forall>v st' b.
             js_prop (Some (js ! i)) ''uuid'' = Inr v \<and> fetch_attachments e v = Response st' b
             \<and> \<not> ok st' \<longrightarrow> attachments (xs ! i) = JArr [])"
proof -
  let ?g = "\<lambda>j. \<lparr>job = j, attachments = attachments_of e j\<rparr>"
  have "\<forall>j\<in>set js. with_attachments e j = Inr (?g j)"
  proof
    fix j assume "j \<in> set js"
    with assms(5) obtain v st' b where
      "js_prop (Some j) ''uuid'' = Inr v" "fetch_attachments e v = Response st' b" "ok st' \<longrightarrow> b \<noteq> None"
      by blast
    then show "with_attachments e j = Inr (?g j)"
      by (auto simp: with_attachments_def fetchBookingAttachments_def attachments_of_def
          response_json_def)
  qed
  then have all: "promise_all (map (with_attachments e) js) = Inr (map ?g js)"
    by (rule promise_all_map)
  have 1: "list_jobs e (Some u) = reply 200 (JobsBody (map ?g js))"
    using assms(1-4) all by (simp add: list_jobs_def truthy_str_def response_json_def)
  have 2: "map job (map ?g js) = js"
    by (simp add: comp_def)
  have 3: "\<forall>i<length js. \<forall>v st' b.
             js_prop (Some (js ! i)) ''uuid'' = Inr v \<and> fetch_attachments e v = Response st' b
             \<and> \<not> ok st' \<longrightarrow> attachments (map ?g js ! i) = JArr []"
    by (simp add: attachments_of_def)
  from 1 2 3 show ?thesis by blast
qed

text \<open>
  Bob's company has two jobs; the attachment request of \<open>job-1\<close> answers 503 and that
  of \<open>job-2\<close> answers one attachment. Both jobs are listed, the first with \<open>[]\<close>.
\<close>

lemma sample_list_jobs:
  "list_jobs (sample_env two_jobs) (Some bob) =
     reply 200 (JobsBody
       [\<lparr>job = JObj [(''uuid'', JStr ''job-1'')], attachments = JArr []\<rparr>,
        \<lparr>job = JObj [(''uuid'', JStr ''job-2'')],
         attachments = JArr [JObj [(''uuid'', JStr ''file-9'')]]\<rparr>])"
  by (simp add: list_jobs_def sample_env_def bob_def two_jobs_def truthy_str_def ok_def
      response_json_def with_attachments_def fetchBookingAttachments_def fetch_attachments_def
      jobs_url_def attachments_url_def api_def)

theorem list_jobs_swallows_failed_attachments_witness:
  "\<exists>xs. list_jobs (sample_env two_jobs) (Some bob) = reply 200 (JobsBody xs)
     \<and> map job xs = [JObj [(''uuid'', JStr ''job-1'')], JObj [(''uuid'', JStr ''job-2'')]]
     \<and> attachments (xs ! 0) = JArr []"
proof -
  let ?e = "sample_env two_jobs"
  let ?js = "[JObj [(''uuid'', JStr ''job-1'')], JObj [(''uuid'', JStr ''job-2'')]]"
  have 1: "u_sm8Uuid bob = Some ''company-2''" and 2: "''company-2'' \<noteq> []"
    by (simp_all add: bob_def)
  have 3: "fetch ?e (jobs_url ''company-2'') = Response 200 (Some (JArr ?js))"
    by (simp add: sample_env_def two_jobs_def)
  have 4: "ok 200"
    by (simp add: ok_def)
  have a1: "fetch_attachments ?e (Some (JStr ''job-1'')) = Response 503 None"
    by (simp add: fetch_attachments_def sample_env_def two_jobs_def jobs_url_def
        attachments_url_def api_def)
  have a2: "fetch_attachments ?e (Some (JStr ''job-2'')) =
              Response 200 (Some (JArr [JObj [(''uuid'', JStr ''file-9'')]]))"
    by (simp add: fetch_attachments_def sample_env_def two_jobs_def jobs_url_def
        attachments_url_def api_def)
  have 5: "\<forall>j\<in>set ?js. \<exists>v st' b. js_prop (Some j) ''uuid'' = Inr v
            \<and> fetch_attachments ?e v = Response st' b \<and> (ok st' \<longrightarrow> b \<noteq> None)"
    by (simp add: a1 a2 ok_def)
  have bad: "js_prop (Some (?js ! 0)) ''uuid'' = Inr (Some (JStr ''job-1''))
             \<and> fetch_attachments ?e (Some (JStr ''job-1'')) = Response 503 None \<and> \<not> ok 503"
    by (simp add: a1 ok_def)
  from list_jobs_swallows_failed_attachments [OF 1 2 3 4 5]
  obtain xs where xs: "list_jobs ?e (Some bob) = reply 200 (JobsBody xs) \<and> map job xs = ?js
    \<and> (\<forall>i<length ?js. \<forall>v st' b.
        js_prop (Some (?js ! i)) ''uuid'' = Inr v \<and> fetch_attachments ?e v = Response st' b
        \<and> \<not> ok st' \<longrightarrow> attachments (xs ! i) = JArr [])" ..
  note listed = xs [THEN conjunct1] and jobs = xs [THEN conjunct2, THEN conjunct1]
    and failed = xs [THEN conjunct2, THEN conjunct2, rule_format, of 0 "Some (JStr ''job-1'')" 503 None]
  from failed bad have "attachments (xs ! 0) = JArr []"
    by simp
  with listed jobs show ?thesis
    by (intro exI [of _ xs] conjI)
qed

end
